theory Spec2Isabelle
  imports Complex_Main "HOL-Library.Log_Nat"
begin

section \<open>QtAVPlayer: the player core of qavplayer.cpp\<close>

text \<open>
  A shallow embedding of \<^verbatim>\<open>src/QtAVPlayer/qavplayer.cpp\<close>. The private object
  \<^verbatim>\<open>QAVPlayerPrivate\<close> is a record; every member function is a function from the
  record to the updated record. Conventions:
  \<^item> the value of a C++ \<^verbatim>\<open>double\<close> is a \<^typ>\<open>real\<close>, and every product, quotient
    and difference of two doubles is rounded to the nearest double, as IEEE 754 binary64
    does; infinities and NaN are not values of the model;
  \<^item> a \<^verbatim>\<open>qint64\<close> is an \<^typ>\<open>int\<close> between \<open>-2\<^sup>6\<^sup>3\<close> and \<open>2\<^sup>6\<^sup>3 - 1\<close>: the file does
    no integer arithmetic on it, only comparisons and conversions from and to
    \<^verbatim>\<open>double\<close>, and the conversion keeps the result in that range;
  \<^item> \<^verbatim>\<open>emit\<close> appends the signal to the field \<open>emitted\<close>, in emission order;
  \<^item> a closure handed to \<^verbatim>\<open>event\<close> or \<^verbatim>\<open>dispatch\<close> is a constructor of the datatype
    \<open>event\<close> or \<open>capsule\<close>, and running it is the function \<open>runEvent\<close> or
    \<open>runCapsule\<close>, whose equations are the bodies of the lambdas;
  \<^item> mutexes, wait conditions, futures and logging leave no trace in the record: each
    function is one atomic step of the thread that calls it.
\<close>

subsection \<open>Enumerations of qavplayer.h, signals and closures\<close>

datatype MediaStatus = NoMedia | LoadedMedia | EndOfMedia | InvalidMedia

datatype State = StoppedState | PlayingState | PausedState

datatype Error = NoError | ResourceError

text \<open>A video frame as far as this file looks at it: \<^verbatim>\<open>{}\<close> is the empty frame.\<close>

datatype QAVVideoFrame = EmptyVideoFrame | VideoFrameAt real

datatype signal =
    sourceChanged string
  | mediaStatusChanged MediaStatus
  | stateChanged State
  | seekableChanged bool
  | durationChanged int
  | videoFrameRateChanged real
  | errorOccurred Error string
  | played int
  | paused int
  | stopped int
  | seeked int
  | videoFrame QAVVideoFrame

text \<open>
  The seven lambdas passed to \<^verbatim>\<open>event\<close>: by \<^verbatim>\<open>play\<close> (lines 490 and 502),
  \<^verbatim>\<open>pause\<close> (522 and 535), \<^verbatim>\<open>stop\<close> (551) and \<^verbatim>\<open>seek\<close> (588 and 601, the latter
  capturing \<^verbatim>\<open>pos\<close>).
\<close>

datatype event =
    PlayedEvent
  | PendingPlay
  | PausedEvent
  | PendingPause
  | StoppedEvent
  | SeekedEvent
  | PendingSeek int

text \<open>
  The three kinds of closure passed to \<^verbatim>\<open>dispatch\<close>: by \<^verbatim>\<open>doLoad\<close> (lines 267 and
  272; line 279 capturing duration, seekable and frame rate) and by \<^verbatim>\<open>doDemux\<close>
  (line 351).
\<close>

datatype capsule =
    SetErrorCapsule Error string
  | LoadedCapsule real bool real
  | EndOfMediaCapsule

subsection \<open>The collaborators declared in other files\<close>

text \<open>
  Modelled from the spec: the packet of \<^verbatim>\<open>qavpacket_p.h\<close> (section 6, ``Packet trait:
  streamIndex, opaque payload, byte size accessor'').
\<close>

record QAVPacket =
  streamIndex :: int
  size_bytes :: int

text \<open>
  Modelled from the spec: the packet queue of \<^verbatim>\<open>qavpacketqueue_p.h\<close> (section 4.1):
  an ordered sequence of packets, the \<^verbatim>\<open>finished\<close> and \<^verbatim>\<open>aborted\<close> flags and the
  last presentation timestamp. \<^verbatim>\<open>bytes\<close> is the byte sum, \<^verbatim>\<open>enqueue\<close> appends,
  \<^verbatim>\<open>clear\<close> drops all packets and leaves the flags, \<^verbatim>\<open>finish\<close> marks the queue
  terminal. The spec leaves \<^verbatim>\<open>enough\<close> to the implementation, so the functions that
  call it take it as the parameter \<open>enough\<close>. \<^verbatim>\<open>waitForEmpty\<close> and \<^verbatim>\<open>wakeAll\<close>
  only block or wake threads.
\<close>

record QAVPacketQueue =
  packets :: "QAVPacket list"
  finished :: bool
  aborted :: bool
  pts :: real

text \<open>Modelled from the spec: \<^verbatim>\<open>QAVPacketQueue::bytes\<close>, ``current byte sum''.\<close>

definition bytes :: "QAVPacketQueue \<Rightarrow> int" where
  "bytes q = sum_list (map size_bytes (packets q))"

text \<open>Modelled from the spec: \<^verbatim>\<open>QAVPacketQueue::isEmpty\<close>, the queue holds no packet.\<close>

definition isEmpty :: "QAVPacketQueue \<Rightarrow> bool" where
  "isEmpty q = (packets q = [])"

text \<open>Modelled from the spec: \<^verbatim>\<open>QAVPacketQueue::enqueue\<close>, ``append; update byte count''.\<close>

definition enqueue :: "QAVPacket \<Rightarrow> QAVPacketQueue \<Rightarrow> QAVPacketQueue" where
  "enqueue p q = q\<lparr>packets := packets q @ [p]\<rparr>"

text \<open>Modelled from the spec: \<^verbatim>\<open>QAVPacketQueue::clear\<close>, ``drop all packets, reset byte count, leave flags''.\<close>

definition clear :: "QAVPacketQueue \<Rightarrow> QAVPacketQueue" where
  "clear q = q\<lparr>packets := []\<rparr>"

text \<open>Modelled from the spec: \<^verbatim>\<open>QAVPacketQueue::finish\<close>, ``mark terminal''.\<close>

definition finish :: "QAVPacketQueue \<Rightarrow> QAVPacketQueue" where
  "finish q = q\<lparr>finished := True\<rparr>"

text \<open>Modelled from the spec: \<^verbatim>\<open>QAVPacketQueue::abort\<close>, which sets the \<^verbatim>\<open>aborted\<close> flag.\<close>

definition abort :: "QAVPacketQueue \<Rightarrow> QAVPacketQueue" where
  "abort q = q\<lparr>aborted := True\<rparr>"

text \<open>
  Modelled from the spec: the demuxer of \<^verbatim>\<open>qavdemuxer_p.h\<close> (section 6, ``Demuxer
  trait''), as a scripted stand-in. \<open>videoStream\<close> and \<open>audioStream\<close> are negative when the
  stream is absent; \<open>incoming\<close> lists what the next calls of \<^verbatim>\<open>read\<close> return
  (\<open>None\<close> is the null packet; an exhausted script returns null) and \<open>reads\<close> counts
  the calls; \<open>eof\<close> is what \<^verbatim>\<open>eof()\<close> answers; \<open>seekResult\<close> is what \<^verbatim>\<open>seek\<close>
  returns, and \<open>seekLog\<close> records the positions it was called with. The theorems hold
  for every value of these fields.
\<close>

record QAVDemuxer =
  videoStream :: int
  audioStream :: int
  eof :: bool
  incoming :: "QAVPacket option list"
  reads :: nat
  seekResult :: int
  seekLog :: "real list"
  duration_d :: real
  seekable_d :: bool
  frameRate :: real

text \<open>Modelled from the spec: \<^verbatim>\<open>QAVDemuxer::read\<close>, ``none at EOF or transient empty'', here the next entry of the script.\<close>

definition demuxer_read :: "QAVDemuxer \<Rightarrow> QAVPacket option \<times> QAVDemuxer" where
  "demuxer_read dm =
     (case incoming dm of
        [] \<Rightarrow> (None, dm\<lparr>reads := Suc (reads dm)\<rparr>)
      | r # rs \<Rightarrow> (r, dm\<lparr>incoming := rs, reads := Suc (reads dm)\<rparr>))"

text \<open>Modelled from the spec: \<^verbatim>\<open>QAVDemuxer::seek\<close>, ``0+ success'', here the scripted result.\<close>

definition demuxer_seek :: "real \<Rightarrow> QAVDemuxer \<Rightarrow> int \<times> QAVDemuxer" where
  "demuxer_seek pos dm = (seekResult dm, dm\<lparr>seekLog := seekLog dm @ [pos]\<rparr>)"

subsection \<open>Arithmetic of \<^verbatim>\<open>double\<close> and \<^verbatim>\<open>qint64\<close>\<close>

text \<open>
  The exponent of a real that is not zero: the \<open>e\<close> with \<open>2\<^sup>e \<le> \<bar>x\<bar> < 2\<^sup>e\<^sup>+\<^sup>1\<close>, from the
  number of bits of the integer part, or of the integer part of the inverse.
\<close>

definition double_exponent :: "real \<Rightarrow> int" where
  "double_exponent x =
     (if 1 \<le> \<bar>x\<bar> then bitlen \<lfloor>\<bar>x\<bar>\<rfloor> - 1 else - bitlen (\<lceil>1 / \<bar>x\<bar>\<rceil> - 1))"

text \<open>Rounding to the nearest integer, a tie going to the even one.\<close>

definition round_to_even :: "real \<Rightarrow> int" where
  "round_to_even y =
     (let f = \<lfloor>y\<rfloor>; d = y - of_int f in
      if d < 1 / 2 then f else if 1 / 2 < d then f + 1 else if even f then f else f + 1)"

text \<open>
  Rounding to the nearest binary64 number, ties to even: 53 significant bits, that is a
  multiple of \<open>2\<^sup>e\<^sup>-\<^sup>5\<^sup>2\<close>, the exponent not below \<open>-1022\<close> (below it the numbers are
  subnormal, multiples of \<open>2\<^sup>-\<^sup>1\<^sup>0\<^sup>7\<^sup>4\<close>). A magnitude of \<open>2\<^sup>1\<^sup>0\<^sup>2\<^sup>4\<close> or more, where
  the machine gives an infinity, is rounded as if the exponent had no upper limit; its
  conversion to \<^verbatim>\<open>qint64\<close> below is that of the infinity. The fields of type
  \<^verbatim>\<open>double\<close> may hold any real; a run stores results of \<open>double_round\<close> in them.
\<close>

definition double_round :: "real \<Rightarrow> real" where
  "double_round x =
     (if x = 0 then 0
      else (let u = 2 powi (max (double_exponent x) (- 1022) - 52)
            in of_int (round_to_even (x / u)) * u))"

text \<open>The operators \<^verbatim>\<open>*\<close>, \<^verbatim>\<open>/\<close> and \<^verbatim>\<open>-\<close> on two doubles.\<close>

definition fmul :: "real \<Rightarrow> real \<Rightarrow> real" where
  "fmul x y = double_round (x * y)"

definition fdiv :: "real \<Rightarrow> real \<Rightarrow> real" where
  "fdiv x y = double_round (x / y)"

definition fsub :: "real \<Rightarrow> real \<Rightarrow> real" where
  "fsub x y = double_round (x - y)"

text \<open>The conversion of a \<^verbatim>\<open>qint64\<close> to \<^verbatim>\<open>double\<close>, exact up to \<open>2\<^sup>5\<^sup>3\<close>.\<close>

definition double_of_qint64 :: "int \<Rightarrow> real" where
  "double_of_qint64 i = double_round (of_int i)"

text \<open>
  The conversion of a \<^verbatim>\<open>double\<close> to \<^verbatim>\<open>qint64\<close> truncates towards zero. When the
  truncated value is not a \<^verbatim>\<open>qint64\<close> the C++ standard leaves the conversion undefined;
  the model takes what the conversion instruction of x86-64 (\<^verbatim>\<open>cvttsd2si\<close>) returns
  there, \<open>-2\<^sup>6\<^sup>3\<close>.
\<close>

definition qint64_of_double :: "real \<Rightarrow> int" where
  "qint64_of_double r =
     (let t = (if r < 0 then \<lceil>r\<rceil> else \<lfloor>r\<rfloor>) in
      if - (2 ^ 63) \<le> t \<and> t < 2 ^ 63 then t else - (2 ^ 63))"

text \<open>
  Qt's \<^verbatim>\<open>qFuzzyCompare(double, double)\<close> (qglobal.h):
  \<^verbatim>\<open>qAbs(p1 - p2) * 1000000000000. <= qMin(qAbs(p1), qAbs(p2))\<close>.
\<close>

definition qFuzzyCompare :: "real \<Rightarrow> real \<Rightarrow> bool" where
  "qFuzzyCompare p1 p2 = (fmul \<bar>fsub p1 p2\<bar> 1000000000000 \<le> min \<bar>p1\<bar> \<bar>p2\<bar>)"

text \<open>The expression \<^verbatim>\<open>pos / 1000.0\<close> of line 583, \<^verbatim>\<open>pos\<close> a \<^verbatim>\<open>qint64\<close>.\<close>

definition seconds_of_ms :: "int \<Rightarrow> real" where
  "seconds_of_ms pos = fdiv (double_of_qint64 pos) 1000"

subsection \<open>QAVPlayerPrivate\<close>

text \<open>
  The fields of the class (lines 59 to 95) that hold data, and two fields of the model:
  \<open>emitted\<close>, the signals emitted so far, and \<open>dispatched\<close>, the closures posted to the
  client thread by \<^verbatim>\<open>dispatch\<close> and not yet run.
\<close>

record QAVPlayerPrivate =
  url :: string
  mediaStatus :: MediaStatus
  state :: State
  events :: "event list"
  seekable :: bool
  speed :: real
  videoFrameRate :: real
  error :: Error
  errorString :: string
  duration :: real
  pendingPosition :: real
  demuxer :: QAVDemuxer
  videoQueue :: QAVPacketQueue
  audioQueue :: QAVPacketQueue
  quit :: bool
  isWaiting :: bool
  emitted :: "signal list"
  dispatched :: "capsule list"

definition emit :: "signal \<Rightarrow> QAVPlayerPrivate \<Rightarrow> QAVPlayerPrivate" where
  "emit sg s = s\<lparr>emitted := emitted s @ [sg]\<rparr>"

definition setMediaStatus :: "MediaStatus \<Rightarrow> QAVPlayerPrivate \<Rightarrow> QAVPlayerPrivate" where
  "setMediaStatus status s =
     (if mediaStatus s = status then s
      else emit (mediaStatusChanged status) (s\<lparr>mediaStatus := status\<rparr>))"

text \<open>Every caller in the file passes a non-null function, so \<^verbatim>\<open>event\<close> appends.\<close>

definition event :: "event \<Rightarrow> QAVPlayerPrivate \<Rightarrow> QAVPlayerPrivate" where
  "event fn s = s\<lparr>events := events s @ [fn]\<rparr>"

definition setState :: "State \<Rightarrow> QAVPlayerPrivate \<Rightarrow> bool \<times> QAVPlayerPrivate" where
  "setState st s =
     (if state s = st then (False, s)
      else (True, emit (stateChanged st) (s\<lparr>state := st\<rparr>)))"

definition setSeekable :: "bool \<Rightarrow> QAVPlayerPrivate \<Rightarrow> QAVPlayerPrivate" where
  "setSeekable b s =
     (if seekable s = b then s
      else emit (seekableChanged b) (s\<lparr>seekable := b\<rparr>))"

text \<open>\<^verbatim>\<open>QAVPlayer::duration\<close>: \<^verbatim>\<open>return d_func()->duration * 1000\<close>, as a \<^verbatim>\<open>qint64\<close>.\<close>

definition QAVPlayer_duration :: "QAVPlayerPrivate \<Rightarrow> int" where
  "QAVPlayer_duration s = qint64_of_double (fmul (duration s) 1000)"

definition setDuration :: "real \<Rightarrow> QAVPlayerPrivate \<Rightarrow> QAVPlayerPrivate" where
  "setDuration d s =
     (if qFuzzyCompare (duration s) d then s
      else (let s1 = s\<lparr>duration := d\<rparr> in emit (durationChanged (QAVPlayer_duration s1)) s1))"

definition isSeeking :: "QAVPlayerPrivate \<Rightarrow> bool" where
  "isSeeking s = (pendingPosition s \<ge> 0)"

definition setVideoFrameRate :: "real \<Rightarrow> QAVPlayerPrivate \<Rightarrow> QAVPlayerPrivate" where
  "setVideoFrameRate v s =
     (if qFuzzyCompare (videoFrameRate s) v then s
      else emit (videoFrameRateChanged v) (s\<lparr>videoFrameRate := v\<rparr>))"

text \<open>
  \<^verbatim>\<open>dispatch\<close> is \<^verbatim>\<open>QMetaObject::invokeMethod(q_ptr, fn, nullptr)\<close>, called from a worker
  thread: the closure is queued for the client thread.
\<close>

definition dispatch :: "capsule \<Rightarrow> QAVPlayerPrivate \<Rightarrow> QAVPlayerPrivate" where
  "dispatch fn s = s\<lparr>dispatched := dispatched s @ [fn]\<rparr>"

definition setError :: "Error \<Rightarrow> string \<Rightarrow> QAVPlayerPrivate \<Rightarrow> QAVPlayerPrivate" where
  "setError err str s =
     (if error s = err then s
      else setMediaStatus InvalidMedia
             (emit (errorOccurred err str) (s\<lparr>error := err, errorString := str\<rparr>)))"

text \<open>\<^verbatim>\<open>wait(v)\<close> arms (\<open>True\<close>) or releases (\<open>False\<close>) the gate; the wake-ups are not state.\<close>

definition wait :: "bool \<Rightarrow> QAVPlayerPrivate \<Rightarrow> QAVPlayerPrivate" where
  "wait v s = s\<lparr>isWaiting := v\<rparr>"

definition hasAudio :: "QAVPlayerPrivate \<Rightarrow> bool" where
  "hasAudio s = (audioStream (demuxer s) \<ge> 0)"

definition hasVideo :: "QAVPlayerPrivate \<Rightarrow> bool" where
  "hasVideo s = (videoStream (demuxer s) \<ge> 0)"

definition position :: "QAVPlayerPrivate \<Rightarrow> int" where
  "position s =
     (if mediaStatus s = EndOfMedia then QAVPlayer_duration s
      else if pendingPosition s \<ge> 0 then qint64_of_double (fmul (pendingPosition s) 1000)
      else (let p = (if hasVideo s then pts (videoQueue s) else pts (audioQueue s))
            in qint64_of_double (fmul p 1000)))"

definition seek :: "int \<Rightarrow> QAVPlayerPrivate \<Rightarrow> QAVPlayerPrivate" where
  "seek pos s =
     (if pos < 0 \<or> (QAVPlayer_duration s > 0 \<and> pos > QAVPlayer_duration s) then s
      else
        (let status = mediaStatus s in
         if status = LoadedMedia \<or> status = EndOfMedia then
           (let s1 = s\<lparr>pendingPosition := seconds_of_ms pos\<rparr>;
                s2 = (if status = EndOfMedia then setMediaStatus LoadedMedia s1 else s1);
                s3 = event SeekedEvent s2
            in wait False s3)
         else event (PendingSeek pos) s))"

definition play :: "QAVPlayerPrivate \<Rightarrow> QAVPlayerPrivate" where
  "play s =
     (if url s = [] \<or> mediaStatus s = InvalidMedia then s
      else
        (let status = mediaStatus s in
         if status = LoadedMedia \<or> status = EndOfMedia then
           (case setState PlayingState s of
              (True, s1) \<Rightarrow>
                (let s2 = (if status = EndOfMedia then seek 0 s1 else s1);
                     s3 = event PlayedEvent s2
                 in wait False s3)
            | (False, s1) \<Rightarrow> wait False s1)
         else event PendingPlay s))"

definition pause :: "QAVPlayerPrivate \<Rightarrow> QAVPlayerPrivate" where
  "pause s =
     (let status = mediaStatus s in
      if status = LoadedMedia \<or> status = EndOfMedia then
        (let s1 = (if status = EndOfMedia then seek 0 s else s) in
         case setState PausedState s1 of
           (True, s2) \<Rightarrow> event PausedEvent (wait False s2)
         | (False, s2) \<Rightarrow> wait True s2)
      else event PendingPause s)"

definition stop :: "QAVPlayerPrivate \<Rightarrow> QAVPlayerPrivate" where
  "stop s =
     (let status = mediaStatus s in
      if status = LoadedMedia \<or> status = EndOfMedia then
        (case setState StoppedState s of
           (True, s1) \<Rightarrow> event StoppedEvent (wait False s1)
         | (False, s1) \<Rightarrow> wait True s1)
      else s)"

subsection \<open>Deferred events\<close>

text \<open>
  The bodies of the lambdas, in the order of the datatype. The result is the lambda's
  return value (\<open>True\<close>: consumed) and the record it leaves.
\<close>

fun runEvent :: "event \<Rightarrow> bool \<Rightarrow> QAVPlayerPrivate \<Rightarrow> bool \<times> QAVPlayerPrivate" where
  "runEvent PlayedEvent tick s =
     (let s1 = wait False s in
      if \<not> tick \<and> mediaStatus s1 \<noteq> EndOfMedia then (False, s1)
      else (True, emit (played (position s1)) s1))"
| "runEvent PendingPlay tick s = (True, play s)"
| "runEvent PausedEvent tick s =
     (if \<not> tick \<and> mediaStatus s \<noteq> EndOfMedia then (False, s)
      else (True, wait True (emit (paused (position s)) s)))"
| "runEvent PendingPause tick s = (True, pause s)"
| "runEvent StoppedEvent tick s =
     (let s1 = emit (stopped (position s)) s;
          s2 = (if hasVideo s1 then emit (videoFrame EmptyVideoFrame) s1 else s1)
      in (True, wait True s2))"
| "runEvent SeekedEvent tick s =
     (if \<not> tick \<or> isSeeking s then (False, s)
      else
        (let s1 = emit (seeked (position s)) s;
             currState = state s1
         in (True, if currState = PausedState \<or> currState = StoppedState
                   then wait True s1 else s1)))"
| "runEvent (PendingSeek pos) tick s = (True, seek pos s)"

text \<open>
  The \<^verbatim>\<open>while\<close> loop of \<^verbatim>\<open>processEvents\<close>. An event may append events, so the loop
  need not end: the first argument bounds the number of events run, and \<open>None\<close> says the
  bound was reached with events left.
\<close>

fun processEvents_loop :: "nat \<Rightarrow> bool \<Rightarrow> QAVPlayerPrivate \<Rightarrow> QAVPlayerPrivate option" where
  "processEvents_loop 0 tick s = (if events s = [] then Some s else None)"
| "processEvents_loop (Suc n) tick s =
     (if events s = [] then Some s
      else
        (case runEvent (hd (events s)) tick s of
           (False, s1) \<Rightarrow> Some s1
         | (True, s1) \<Rightarrow> processEvents_loop n tick (s1\<lparr>events := tl (events s1)\<rparr>)))"

definition processEvents :: "nat \<Rightarrow> bool \<Rightarrow> QAVPlayerPrivate \<Rightarrow> QAVPlayerPrivate option" where
  "processEvents fuel tick s =
     (if events s = [] \<or> isSeeking s then Some s else processEvents_loop fuel tick s)"

subsection \<open>Termination, loading and the client thread's queue\<close>

text \<open>
  \<^verbatim>\<open>terminate\<close>; \<^verbatim>\<open>demuxer.abort()\<close> and the four \<^verbatim>\<open>waitForFinished\<close> leave the record as
  it is.
\<close>

definition terminate :: "QAVPlayerPrivate \<Rightarrow> QAVPlayerPrivate" where
  "terminate s =
     (let s1 = snd (setState StoppedState s);
          s2 = setMediaStatus NoMedia s1;
          s3 = s2\<lparr>quit := True\<rparr>;
          s4 = wait False s3;
          s5 = s4\<lparr>videoFrameRate := 0\<rparr>;
          s6 = s5\<lparr>videoQueue := abort (clear (videoQueue s5))\<rparr>;
          s7 = s6\<lparr>audioQueue := abort (clear (audioQueue s6))\<rparr>
      in s7\<lparr>pendingPosition := - 1\<rparr>)"

text \<open>\<^verbatim>\<open>setSource\<close>; the loader it starts is the separate step \<open>doLoad\<close>.\<close>

definition setSource :: "string \<Rightarrow> QAVPlayerPrivate \<Rightarrow> QAVPlayerPrivate" where
  "setSource u s =
     (if url s = u then s
      else
        (let s1 = terminate s;
             s2 = emit (sourceChanged u) (s1\<lparr>url := u\<rparr>)
         in if url s2 = [] then setDuration 0 (setMediaStatus NoMedia s2)
            else (wait True s2)\<lparr>quit := False\<rparr>))"

text \<open>
  \<^verbatim>\<open>doLoad\<close>. \<open>ret\<close> is what \<^verbatim>\<open>demuxer.load(url)\<close> returned and \<open>dm\<close> the demuxer it
  left; \<open>err_str\<close> is the file's static function of that name, which asks FFmpeg for the
  message. Starting the three workers changes no field.
\<close>

definition doLoad :: "(int \<Rightarrow> string) \<Rightarrow> int \<Rightarrow> QAVDemuxer \<Rightarrow> QAVPlayerPrivate \<Rightarrow> QAVPlayerPrivate" where
  "doLoad err_str ret dm s =
     (let s1 = s\<lparr>demuxer := dm\<rparr> in
      if ret < 0 then dispatch (SetErrorCapsule ResourceError (err_str ret)) s1
      else if videoStream (demuxer s1) < 0 \<and> audioStream (demuxer s1) < 0
        then dispatch (SetErrorCapsule ResourceError ''No codecs found'') s1
      else dispatch (LoadedCapsule (duration_d (demuxer s1)) (seekable_d (demuxer s1))
                       (frameRate (demuxer s1))) s1)"

text \<open>The bodies of the dispatched closures, run on the client thread.\<close>

fun runCapsule :: "nat \<Rightarrow> capsule \<Rightarrow> QAVPlayerPrivate \<Rightarrow> QAVPlayerPrivate option" where
  "runCapsule fuel (SetErrorCapsule err str) s = Some (setError err str s)"
| "runCapsule fuel (LoadedCapsule d sk fr) s =
     processEvents fuel True
       (setMediaStatus LoadedMedia (setVideoFrameRate fr (setDuration d (setSeekable sk s))))"
| "runCapsule fuel EndOfMediaCapsule s = Some (stop (setMediaStatus EndOfMedia s))"

text \<open>The client thread's event loop takes the oldest posted closure and runs it.\<close>

definition runDispatched :: "nat \<Rightarrow> QAVPlayerPrivate \<Rightarrow> QAVPlayerPrivate option" where
  "runDispatched fuel s =
     (case dispatched s of
        [] \<Rightarrow> Some s
      | c # cs \<Rightarrow> runCapsule fuel c (s\<lparr>dispatched := cs\<rparr>))"

subsection \<open>The demuxer worker\<close>

definition maxQueueBytes :: int where
  "maxQueueBytes = 15 * 1024 * 1024"

text \<open>The condition of line 312.\<close>

definition doDemux_backpressure :: "(QAVPacketQueue \<Rightarrow> bool) \<Rightarrow> QAVPlayerPrivate \<Rightarrow> bool" where
  "doDemux_backpressure enough s =
     (bytes (videoQueue s) + bytes (audioQueue s) > maxQueueBytes
      \<or> (enough (videoQueue s) \<and> enough (audioQueue s)))"

text \<open>
  Lines 320 to 342 in three parts, cut where \<^verbatim>\<open>positionMutex\<close> is released and taken
  again: the snapshot under the lock, the part that runs unlocked (lines 325 to 337) and
  the comparison after \<^verbatim>\<open>relock\<close> (lines 339 and 340). \<open>client\<close> is what other threads
  did to the record while the lock was free; it is \<open>id\<close> when they did nothing.
\<close>

definition doDemux_seek_unlocked :: "real \<Rightarrow> QAVPlayerPrivate \<Rightarrow> QAVPlayerPrivate" where
  "doDemux_seek_unlocked pos s =
     (case demuxer_seek pos (demuxer s) of
        (ret, dm) \<Rightarrow>
          (let s1 = s\<lparr>demuxer := dm\<rparr> in
           if ret \<ge> 0
           then s1\<lparr>videoQueue := clear (videoQueue s1), audioQueue := clear (audioQueue s1)\<rparr>
           else s1))"

definition doDemux_seek_relock :: "real \<Rightarrow> QAVPlayerPrivate \<Rightarrow> QAVPlayerPrivate" where
  "doDemux_seek_relock pos s =
     (if qFuzzyCompare (pendingPosition s) pos then s\<lparr>pendingPosition := - 1\<rparr> else s)"

definition doDemux_seek :: "(QAVPlayerPrivate \<Rightarrow> QAVPlayerPrivate) \<Rightarrow> QAVPlayerPrivate \<Rightarrow> QAVPlayerPrivate" where
  "doDemux_seek client s =
     (if pendingPosition s \<ge> 0 then
        (let pos = pendingPosition s in
         doDemux_seek_relock pos (client (doDemux_seek_unlocked pos s)))
      else s)"

text \<open>Lines 346 to 356: the null packet.\<close>

definition doDemux_noPacket :: "QAVPlayerPrivate \<Rightarrow> QAVPlayerPrivate" where
  "doDemux_noPacket s =
     (if eof (demuxer s) \<and> isEmpty (videoQueue s) \<and> isEmpty (audioQueue s)
         \<and> \<not> finished (videoQueue s) \<and> \<not> finished (audioQueue s)
      then
        (let s1 = (if hasVideo s then s\<lparr>videoQueue := finish (videoQueue s)\<rparr> else s);
             s2 = (if hasAudio s1 then s1\<lparr>audioQueue := finish (audioQueue s1)\<rparr> else s1)
         in dispatch EndOfMediaCapsule s2)
      else s)"

text \<open>Lines 363 to 366: routing.\<close>

definition doDemux_route :: "QAVPacket \<Rightarrow> QAVPlayerPrivate \<Rightarrow> QAVPlayerPrivate" where
  "doDemux_route packet s =
     (if streamIndex packet = videoStream (demuxer s)
        then s\<lparr>videoQueue := enqueue packet (videoQueue s)\<rparr>
      else if streamIndex packet = audioStream (demuxer s)
        then s\<lparr>audioQueue := enqueue packet (audioQueue s)\<rparr>
      else s)"

text \<open>
  How an iteration ends: at the \<^verbatim>\<open>continue\<close> of line 317 or of line 360, both after
  \<^verbatim>\<open>waiter.wait(&waiterMutex, 10)\<close>, or at the end of the body.
\<close>

datatype iteration_end = WaitedBackpressure | WaitedNoPacket | Routed

text \<open>Lines 344 to 366.\<close>

definition doDemux_read :: "QAVPlayerPrivate \<Rightarrow> iteration_end \<times> QAVPlayerPrivate" where
  "doDemux_read s =
     (case demuxer_read (demuxer s) of
        (packet, dm) \<Rightarrow>
          (let s1 = s\<lparr>demuxer := dm\<rparr> in
           case packet of
             None \<Rightarrow> (WaitedNoPacket, doDemux_noPacket s1)
           | Some p \<Rightarrow> (Routed, doDemux_route p s1)))"

text \<open>The body of the loop, from the return of \<^verbatim>\<open>doWait\<close>.\<close>

definition doDemux_iteration ::
  "(QAVPacketQueue \<Rightarrow> bool) \<Rightarrow> (QAVPlayerPrivate \<Rightarrow> QAVPlayerPrivate) \<Rightarrow> QAVPlayerPrivate
     \<Rightarrow> iteration_end \<times> QAVPlayerPrivate" where
  "doDemux_iteration enough client s =
     (if doDemux_backpressure enough s then (WaitedBackpressure, s)
      else doDemux_read (doDemux_seek client s))"

text \<open>
  \<^verbatim>\<open>doWait\<close> blocks the caller while the gate is armed, until \<^verbatim>\<open>wait(false)\<close> wakes it.
\<close>

definition doWait_blocks :: "QAVPlayerPrivate \<Rightarrow> bool" where
  "doWait_blocks s = isWaiting s"

text \<open>
  The worker runs until \<^verbatim>\<open>quit\<close>: \<open>doDemux enough n\<close> is its first \<open>n\<close> iterations
  when no other thread touches the record in between. With the gate armed the worker
  blocks in \<^verbatim>\<open>doWait\<close> at line 311, and with no other thread to release the gate it
  stays there: the record is left as it is.
\<close>

fun doDemux :: "(QAVPacketQueue \<Rightarrow> bool) \<Rightarrow> nat \<Rightarrow> QAVPlayerPrivate \<Rightarrow> QAVPlayerPrivate" where
  "doDemux enough 0 s = s"
| "doDemux enough (Suc n) s =
     (if quit s then s
      else if doWait_blocks s then s
      else doDemux enough n (snd (doDemux_iteration enough id s)))"

subsection \<open>Concrete players\<close>

text \<open>
  The object as its member initialisers (lines 59 to 95) leave it, with empty queues and
  a demuxer that has no stream yet.
\<close>

definition QAVPacketQueue_init :: QAVPacketQueue where
  "QAVPacketQueue_init = \<lparr>packets = [], finished = False, aborted = False, pts = 0\<rparr>"

definition QAVDemuxer_init :: QAVDemuxer where
  "QAVDemuxer_init =
     \<lparr>videoStream = - 1, audioStream = - 1, eof = False, incoming = [], reads = 0,
      seekResult = 0, seekLog = [], duration_d = 0, seekable_d = False, frameRate = 0\<rparr>"

definition QAVPlayerPrivate_init :: QAVPlayerPrivate where
  "QAVPlayerPrivate_init =
     \<lparr>url = [], mediaStatus = NoMedia, state = StoppedState, events = [], seekable = False,
      speed = 1, videoFrameRate = 0, error = NoError, errorString = [], duration = 0,
      pendingPosition = - 1, demuxer = QAVDemuxer_init, videoQueue = QAVPacketQueue_init,
      audioQueue = QAVPacketQueue_init, quit = False, isWaiting = False, emitted = [],
      dispatched = []\<rparr>"

text \<open>
  A demuxer that has opened a seekable clip of 10 seconds at 25 frames a second, video on
  stream 0 and audio on stream 1, and one that has opened a stream of unknown duration.
\<close>

definition clip :: QAVDemuxer where
  "clip = QAVDemuxer_init\<lparr>videoStream := 0, audioStream := 1, duration_d := 10,
            seekable_d := True, frameRate := 25\<rparr>"


text \<open>
  Modelled from the spec: \<^verbatim>\<open>QAVPacketQueue::enough\<close>, ``true when the queue holds at
  least a small content threshold (e.g. ... at least N packets)'', with the threshold
  \<open>n\<close>. It is used in the concrete runs only.
\<close>

definition enough_packets :: "nat \<Rightarrow> QAVPacketQueue \<Rightarrow> bool" where
  "enough_packets n q = (n \<le> length (packets q))"

text \<open>A sample \<^verbatim>\<open>err_str\<close>.\<close>

definition err_str_sample :: "int \<Rightarrow> string" where
  "err_str_sample err = (if err = - 2 then ''No such file or directory'' else ''Unknown error'')"

text \<open>
  \<^verbatim>\<open>setSource(u)\<close> on a fresh player, the loader's success with demuxer \<open>dm\<close>, and the
  client thread running the closure the loader posted.
\<close>

definition loaded :: "string \<Rightarrow> QAVDemuxer \<Rightarrow> QAVPlayerPrivate option" where
  "loaded u dm = runDispatched 0 (doLoad err_str_sample 0 dm (setSource u QAVPlayerPrivate_init))"

text \<open>
  Playing the clip to its end: \<^verbatim>\<open>play\<close>; a worker drains the events at its first
  frame; the demuxer reaches the end of the file with both queues drained; one iteration
  of the demuxer worker; the client thread runs the closure it posted; a worker drains
  the events.
\<close>

definition played_through :: "QAVPlayerPrivate option" where
  "played_through =
     Option.bind (loaded ''a.mp4'' clip) (\<lambda>s.
       Option.bind (processEvents 1 True (play s)) (\<lambda>s1.
         let s2 = s1\<lparr>demuxer := (demuxer s1)\<lparr>eof := True\<rparr>\<rparr>;
             s3 = snd (doDemux_iteration (enough_packets 16) id s2)
         in Option.bind (runDispatched 0 s3) (processEvents 1 True)))"

text \<open>\<^verbatim>\<open>play\<close> again, at the end of the media.\<close>

definition replayed :: "QAVPlayerPrivate option" where
  "replayed = map_option play played_through"

text \<open>
  A slot connected to \<^verbatim>\<open>mediaStatusChanged\<close> that calls \<^verbatim>\<open>play()\<close> at EndOfMedia, to
  loop the clip. The closure of line 351 runs on the client thread, so the slot runs
  inside the \<^verbatim>\<open>emit\<close> that ends \<^verbatim>\<open>setMediaStatus(EndOfMedia)\<close>, before the closure's
  \<^verbatim>\<open>stop()\<close>: \<open>looped\<close> is the record when the slot's \<^verbatim>\<open>play()\<close> returns.
\<close>

definition looped :: "QAVPlayerPrivate option" where
  "looped =
     Option.bind (loaded ''a.mp4'' clip) (\<lambda>s.
       map_option (play \<circ> setMediaStatus EndOfMedia) (processEvents 1 True (play s)))"



text \<open>
  A demuxer that has opened a clip with a video stream and no audio stream, holding 17
  video packets; and the player that has loaded it, with \<^verbatim>\<open>play()\<close> called, after 17
  iterations of the demuxer worker while nothing is taken from the video queue.
\<close>

definition video_only :: QAVDemuxer where
  "video_only = QAVDemuxer_init\<lparr>videoStream := 0, duration_d := 10, seekable_d := True,
                  frameRate := 25,
                  incoming := replicate 17 (Some \<lparr>streamIndex = 0, size_bytes = 1000\<rparr>)\<rparr>"

definition video_only_run :: "QAVPlayerPrivate option" where
  "video_only_run =
     map_option (doDemux (enough_packets 16) 17 \<circ> play) (loaded ''v.mp4'' video_only)"

text \<open>
  A source replaced before the client thread has run the closure of the first loader:
  \<^verbatim>\<open>setSource("a.mp4")\<close>; its loader succeeds and posts its closure;
  \<^verbatim>\<open>setSource("missing")\<close>; the client thread runs the posted closure; \<^verbatim>\<open>play()\<close>; the
  second loader fails with -2 and posts its closure; the client thread runs it. The
  workers of the first source, which \<^verbatim>\<open>terminate\<close> wakes and joins, write neither the
  state nor the media status and are left out.
\<close>

definition source_replaced :: "QAVPlayerPrivate option" where
  "source_replaced =
     (let s1 = setSource ''a.mp4'' QAVPlayerPrivate_init;
          s2 = doLoad err_str_sample 0 clip s1;
          s3 = setSource ''missing'' s2
      in Option.bind (runDispatched 0 s3) (\<lambda>s4.
           let s5 = play s4;
               s6 = doLoad err_str_sample (- 2) QAVDemuxer_init s5
           in runDispatched 0 s6))"

section \<open>Properties of the arithmetic\<close>



lemma double_round_zero: "double_round 0 = 0"
  by (simp add: double_round_def)



lemma seconds_of_ms_zero: "seconds_of_ms 0 = 0"
  by (simp add: seconds_of_ms_def fdiv_def double_of_qint64_def double_round_zero)


section \<open>The claims\<close>

subsection \<open>Client operations\<close>

text \<open>
  C1. \<^verbatim>\<open>position()\<close> returns \<^verbatim>\<open>duration()\<close> at EndOfMedia; otherwise the pending position
  when it is not negative; otherwise the timestamp of the video queue when there is a
  video stream, else that of the audio queue; each converted to whole milliseconds: the
  product with 1000, rounded to a double, converted to \<^verbatim>\<open>qint64\<close>. The result is a
  \<^verbatim>\<open>qint64\<close>.
\<close>

theorem position_cases:
  "position s =
     (if mediaStatus s = EndOfMedia then QAVPlayer_duration s
      else if pendingPosition s \<ge> 0 then qint64_of_double (fmul (pendingPosition s) 1000)
      else if hasVideo s then qint64_of_double (fmul (pts (videoQueue s)) 1000)
      else qint64_of_double (fmul (pts (audioQueue s)) 1000))
   \<and> QAVPlayer_duration s = qint64_of_double (fmul (duration s) 1000)
   \<and> - (2 ^ 63) \<le> position s \<and> position s < 2 ^ 63"
  by (simp add: position_def QAVPlayer_duration_def qint64_of_double_def Let_def)

text \<open>
  The branches in turn: a duration of 10 seconds and one of 4.35 seconds (as a double)
  at EndOfMedia; a pending position of 5 seconds, and the one \<^verbatim>\<open>seek(1001)\<close> leaves,
  which comes back as 1000; a video timestamp of 4.35 seconds; an audio timestamp of
  2.25 seconds; and a duration of \<open>10\<^sup>1\<^sup>6\<close> seconds, whose milliseconds are no
  \<^verbatim>\<open>qint64\<close>.
\<close>

theorem position_cases_witness:
  "position (QAVPlayerPrivate_init\<lparr>mediaStatus := EndOfMedia, duration := 10\<rparr>) = 10000
   \<and> position (QAVPlayerPrivate_init\<lparr>mediaStatus := EndOfMedia,
         duration := double_round (435 / 100)\<rparr>) = 4350
   \<and> position (QAVPlayerPrivate_init\<lparr>mediaStatus := LoadedMedia, pendingPosition := 5\<rparr>) = 5000
   \<and> position (seek 1001 (QAVPlayerPrivate_init\<lparr>mediaStatus := LoadedMedia\<rparr>)) = 1000
   \<and> position (QAVPlayerPrivate_init\<lparr>demuxer := clip,
         videoQueue := QAVPacketQueue_init\<lparr>pts := double_round (435 / 100)\<rparr>\<rparr>) = 4350
   \<and> position (QAVPlayerPrivate_init\<lparr>audioQueue := QAVPacketQueue_init\<lparr>pts := 9 / 4\<rparr>\<rparr>) = 2250
   \<and> position (QAVPlayerPrivate_init\<lparr>mediaStatus := EndOfMedia, duration := 10 ^ 16\<rparr>)
       = - (2 ^ 63)"
proof -
  let ?a = "QAVPlayerPrivate_init\<lparr>mediaStatus := EndOfMedia, duration := 10\<rparr>"
  let ?b = "QAVPlayerPrivate_init\<lparr>mediaStatus := EndOfMedia, duration := double_round (435 / 100)\<rparr>"
  let ?c = "QAVPlayerPrivate_init\<lparr>mediaStatus := LoadedMedia, pendingPosition := 5\<rparr>"
  let ?d = "seek 1001 (QAVPlayerPrivate_init\<lparr>mediaStatus := LoadedMedia\<rparr>)"
  let ?e = "QAVPlayerPrivate_init\<lparr>demuxer := clip,
         videoQueue := QAVPacketQueue_init\<lparr>pts := double_round (435 / 100)\<rparr>\<rparr>"
  let ?f = "QAVPlayerPrivate_init\<lparr>audioQueue := QAVPacketQueue_init\<lparr>pts := 9 / 4\<rparr>\<rparr>"
  let ?g = "QAVPlayerPrivate_init\<lparr>mediaStatus := EndOfMedia, duration := 10 ^ 16\<rparr>"
  have a: "mediaStatus ?a = EndOfMedia \<and> QAVPlayer_duration ?a = 10000"
    by code_simp
  have b: "mediaStatus ?b = EndOfMedia \<and> QAVPlayer_duration ?b = 4350"
    by code_simp
  have c: "mediaStatus ?c \<noteq> EndOfMedia \<and> pendingPosition ?c \<ge> 0
           \<and> qint64_of_double (fmul (pendingPosition ?c) 1000) = 5000"
    by code_simp
  have d: "mediaStatus ?d \<noteq> EndOfMedia \<and> pendingPosition ?d \<ge> 0
           \<and> qint64_of_double (fmul (pendingPosition ?d) 1000) = 1000"
    by code_simp
  have e: "mediaStatus ?e \<noteq> EndOfMedia \<and> \<not> pendingPosition ?e \<ge> 0 \<and> hasVideo ?e
           \<and> qint64_of_double (fmul (pts (videoQueue ?e)) 1000) = 4350"
    by code_simp
  have f: "mediaStatus ?f \<noteq> EndOfMedia \<and> \<not> pendingPosition ?f \<ge> 0 \<and> \<not> hasVideo ?f
           \<and> qint64_of_double (fmul (pts (audioQueue ?f)) 1000) = 2250"
    by code_simp
  have g: "mediaStatus ?g = EndOfMedia \<and> QAVPlayer_duration ?g = - (2 ^ 63)"
    by code_simp
  have "position ?a = 10000"
    using position_cases [of ?a] a by simp
  moreover have "position ?b = 4350"
    using position_cases [of ?b] b by simp
  moreover have "position ?c = 5000"
    using position_cases [of ?c] c by simp
  moreover have "position ?d = 1000"
    using position_cases [of ?d] d by simp
  moreover have "position ?e = 4350"
    using position_cases [of ?e] e by simp
  moreover have "position ?f = 2250"
    using position_cases [of ?f] f by simp
  moreover have "position ?g = - (2 ^ 63)"
    using position_cases [of ?g] g by simp
  ultimately show ?thesis by simp
qed

text \<open>
  C3. \<^verbatim>\<open>seek(pos)\<close> with a negative \<open>pos\<close>, or with a positive \<^verbatim>\<open>duration()\<close> smaller
  than \<open>pos\<close>, leaves the whole record as it is: no field changes, nothing is emitted,
  no event is appended.
\<close>

theorem seek_rejected:
  "pos < 0 \<or> (QAVPlayer_duration s > 0 \<and> pos > QAVPlayer_duration s) \<Longrightarrow> seek pos s = s"
  by (auto simp add: seek_def)

text \<open>
  On a clip of 10 seconds \<^verbatim>\<open>seek(-1)\<close> and \<^verbatim>\<open>seek(10001)\<close> are rejected. On a clip of
  4.35 seconds (as a double) \<^verbatim>\<open>duration()\<close> is 4350, so \<^verbatim>\<open>seek(4351)\<close> is rejected and
  \<^verbatim>\<open>seek(4350)\<close> is not: it sets the pending position.
\<close>

theorem seek_rejected_witness:
  "((- 1 :: int) < 0 \<and> seek (- 1) (QAVPlayerPrivate_init\<lparr>duration := 10\<rparr>)
        = QAVPlayerPrivate_init\<lparr>duration := 10\<rparr>)
   \<and> (QAVPlayer_duration (QAVPlayerPrivate_init\<lparr>duration := 10\<rparr>) > 0
      \<and> 10001 > QAVPlayer_duration (QAVPlayerPrivate_init\<lparr>duration := 10\<rparr>)
      \<and> seek 10001 (QAVPlayerPrivate_init\<lparr>duration := 10\<rparr>)
        = QAVPlayerPrivate_init\<lparr>duration := 10\<rparr>)
   \<and> (QAVPlayer_duration (QAVPlayerPrivate_init\<lparr>mediaStatus := LoadedMedia,
          duration := double_round (435 / 100)\<rparr>) = 4350
      \<and> seek 4351 (QAVPlayerPrivate_init\<lparr>mediaStatus := LoadedMedia,
          duration := double_round (435 / 100)\<rparr>)
        = QAVPlayerPrivate_init\<lparr>mediaStatus := LoadedMedia, duration := double_round (435 / 100)\<rparr>
      \<and> pendingPosition (seek 4350 (QAVPlayerPrivate_init\<lparr>mediaStatus := LoadedMedia,
          duration := double_round (435 / 100)\<rparr>)) = double_round (435 / 100))"
proof -
  let ?s = "QAVPlayerPrivate_init\<lparr>duration := 10\<rparr>"
  let ?c = "QAVPlayerPrivate_init\<lparr>mediaStatus := LoadedMedia, duration := double_round (435 / 100)\<rparr>"
  have d: "QAVPlayer_duration ?s = 10000"
    by code_simp
  have d': "QAVPlayer_duration ?c = 4350"
    by code_simp
  have acc: "pendingPosition (seek 4350 ?c) = double_round (435 / 100)"
    by code_simp
  have "seek (- 1) ?s = ?s"
    using seek_rejected [of "- 1" ?s] by simp
  moreover have "seek 10001 ?s = ?s"
    using seek_rejected [of 10001 ?s] d by simp
  moreover have "seek 4351 ?c = ?c"
    using seek_rejected [of 4351 ?c] d' by simp
  ultimately show ?thesis
    using d d' acc by simp
qed

text \<open>
  C5. \<^verbatim>\<open>play()\<close> with an empty URL, or at InvalidMedia, leaves the whole record as it
  is: the state, the events, the gate and the emitted signals.
\<close>

theorem play_noop:
  "url s = [] \<or> mediaStatus s = InvalidMedia \<Longrightarrow> play s = s"
  by (auto simp: play_def)

theorem play_noop_witness:
  "url QAVPlayerPrivate_init = [] \<and> play QAVPlayerPrivate_init = QAVPlayerPrivate_init
   \<and> mediaStatus (QAVPlayerPrivate_init\<lparr>url := ''missing'', mediaStatus := InvalidMedia\<rparr>)
       = InvalidMedia
   \<and> play (QAVPlayerPrivate_init\<lparr>url := ''missing'', mediaStatus := InvalidMedia\<rparr>)
       = QAVPlayerPrivate_init\<lparr>url := ''missing'', mediaStatus := InvalidMedia\<rparr>"
  using play_noop [of QAVPlayerPrivate_init]
    play_noop [of "QAVPlayerPrivate_init\<lparr>url := ''missing'', mediaStatus := InvalidMedia\<rparr>"]
  by (simp add: QAVPlayerPrivate_init_def)

text \<open>
  C8. \<^verbatim>\<open>setError(kind, msg)\<close> with the stored kind equal to \<open>kind\<close> leaves the whole
  record as it is. Otherwise it stores kind and message, emits
  \<^verbatim>\<open>errorOccurred(kind, msg)\<close> and sets the media status to InvalidMedia
  (\<^verbatim>\<open>mediaStatusChanged\<close> follows unless the status was InvalidMedia already); no other
  field changes.
\<close>

theorem setError_cases:
  "(error s = err \<longrightarrow> setError err str s = s) \<and>
   (error s \<noteq> err \<longrightarrow>
      setError err str s =
        s\<lparr>error := err, errorString := str, mediaStatus := InvalidMedia,
          emitted := emitted s @ [errorOccurred err str]
                     @ (if mediaStatus s = InvalidMedia then []
                        else [mediaStatusChanged InvalidMedia])\<rparr>)"
  by (simp add: setError_def setMediaStatus_def emit_def)

theorem setError_cases_witness:
  "setError ResourceError ''again'' (QAVPlayerPrivate_init\<lparr>error := ResourceError\<rparr>)
     = QAVPlayerPrivate_init\<lparr>error := ResourceError\<rparr>
   \<and> setError ResourceError ''No codecs found'' QAVPlayerPrivate_init
     = QAVPlayerPrivate_init\<lparr>error := ResourceError, errorString := ''No codecs found'',
         mediaStatus := InvalidMedia,
         emitted := [errorOccurred ResourceError ''No codecs found'',
                     mediaStatusChanged InvalidMedia]\<rparr>"
  using setError_cases [of "QAVPlayerPrivate_init\<lparr>error := ResourceError\<rparr>" ResourceError "''again''"]
    setError_cases [of QAVPlayerPrivate_init ResourceError "''No codecs found''"]
  by (simp add: QAVPlayerPrivate_init_def)

text \<open>
  C4, as amended. \<^verbatim>\<open>play()\<close> at EndOfMedia with a non-empty URL: when the state is not
  Playing, the state becomes Playing first (\<^verbatim>\<open>stateChanged\<close>) and \<^verbatim>\<open>seek(0)\<close> follows
  (the pending position becomes 0, the media status LoadedMedia with
  \<^verbatim>\<open>mediaStatusChanged\<close>), then the seeked and the played events are appended in this
  order and the gate is released. When the state is Playing already, \<^verbatim>\<open>setState\<close>
  answers false and only the gate is released.
\<close>

theorem play_at_end_of_media:
  "url s \<noteq> [] \<Longrightarrow> mediaStatus s = EndOfMedia \<Longrightarrow>
   play s = (if state s = PlayingState then wait False s
             else wait False (event PlayedEvent (seek 0 (snd (setState PlayingState s)))))
   \<and> (state s \<noteq> PlayingState \<longrightarrow>
        play s = s\<lparr>state := PlayingState, pendingPosition := 0, mediaStatus := LoadedMedia,
                   emitted := emitted s @ [stateChanged PlayingState,
                                           mediaStatusChanged LoadedMedia],
                   events := events s @ [SeekedEvent, PlayedEvent], isWaiting := False\<rparr>)
   \<and> (state s = PlayingState \<longrightarrow> play s = s\<lparr>isWaiting := False\<rparr>)"
  by (auto simp add: play_def seek_def Let_def setState_def setMediaStatus_def emit_def
      event_def wait_def seconds_of_ms_zero)

theorem play_at_end_of_media_witness:
  "url (QAVPlayerPrivate_init\<lparr>url := ''a.mp4'', mediaStatus := EndOfMedia\<rparr>) \<noteq> []
   \<and> mediaStatus (QAVPlayerPrivate_init\<lparr>url := ''a.mp4'', mediaStatus := EndOfMedia\<rparr>) = EndOfMedia
   \<and> play (QAVPlayerPrivate_init\<lparr>url := ''a.mp4'', mediaStatus := EndOfMedia\<rparr>)
     = QAVPlayerPrivate_init\<lparr>url := ''a.mp4'', mediaStatus := LoadedMedia, state := PlayingState,
         pendingPosition := 0,
         emitted := [stateChanged PlayingState, mediaStatusChanged LoadedMedia],
         events := [SeekedEvent, PlayedEvent]\<rparr>
   \<and> play (QAVPlayerPrivate_init\<lparr>url := ''a.mp4'', mediaStatus := EndOfMedia,
         state := PlayingState, isWaiting := True\<rparr>)
     = QAVPlayerPrivate_init\<lparr>url := ''a.mp4'', mediaStatus := EndOfMedia,
         state := PlayingState\<rparr>"
proof -
  let ?s = "QAVPlayerPrivate_init\<lparr>url := ''a.mp4'', mediaStatus := EndOfMedia\<rparr>"
  let ?p = "QAVPlayerPrivate_init\<lparr>url := ''a.mp4'', mediaStatus := EndOfMedia,
         state := PlayingState, isWaiting := True\<rparr>"
  have u: "url ?s \<noteq> []" and m: "mediaStatus ?s = EndOfMedia"
    and u': "url ?p \<noteq> []" and m': "mediaStatus ?p = EndOfMedia"
    by (simp_all add: QAVPlayerPrivate_init_def)
  have st: "state ?s \<noteq> PlayingState" and st': "state ?p = PlayingState"
    by (simp_all add: QAVPlayerPrivate_init_def)
  have A: "play ?s = ?s\<lparr>state := PlayingState, pendingPosition := 0, mediaStatus := LoadedMedia,
                   emitted := emitted ?s @ [stateChanged PlayingState, mediaStatusChanged LoadedMedia],
                   events := events ?s @ [SeekedEvent, PlayedEvent], isWaiting := False\<rparr>"
    using play_at_end_of_media [OF u m] st by blast
  have B: "play ?p = ?p\<lparr>isWaiting := False\<rparr>"
    using play_at_end_of_media [OF u' m'] st' by blast
  show ?thesis
    unfolding A B by (simp add: QAVPlayerPrivate_init_def)
qed

text \<open>
  C4 as stated fails. On the clip played to its end, \<^verbatim>\<open>play()\<close> emits
  \<^verbatim>\<open>stateChanged(Playing)\<close> before the \<^verbatim>\<open>mediaStatusChanged(LoadedMedia)\<close> of its
  \<^verbatim>\<open>seek(0)\<close>: the last two signals of the run. And \<^verbatim>\<open>play()\<close> called from a slot at
  EndOfMedia, with the state still Playing, issues no seek: the media status stays
  EndOfMedia, the pending position \<open>-1\<close>, and no event is appended.
\<close>

theorem play_at_end_counterexample:
  "map_option emitted replayed =
     Some [sourceChanged ''a.mp4'', seekableChanged True, durationChanged 10000,
           videoFrameRateChanged 25, mediaStatusChanged LoadedMedia,
           stateChanged PlayingState, played 0, mediaStatusChanged EndOfMedia,
           stateChanged StoppedState, stopped 10000, videoFrame EmptyVideoFrame,
           stateChanged PlayingState, mediaStatusChanged LoadedMedia]
   \<and> map_option mediaStatus looped = Some EndOfMedia
   \<and> map_option pendingPosition looped = Some (- 1)
   \<and> map_option events looped = Some []"
  by code_simp

text \<open>
  C9, as amended. \<^verbatim>\<open>stop()\<close> with the state not Stopped and the media status LoadedMedia
  or EndOfMedia sets the state to Stopped (\<^verbatim>\<open>stateChanged\<close>), releases the gate and
  appends an event; with the media status NoMedia or InvalidMedia it leaves the whole
  record as it is, whatever the state. The event, when run, emits
  \<^verbatim>\<open>stopped(position)\<close>, then one empty video frame when there is a video stream, re-arms
  the gate and is consumed.
\<close>

theorem stop_when_loaded:
  "(mediaStatus s = LoadedMedia \<or> mediaStatus s = EndOfMedia \<longrightarrow> state s \<noteq> StoppedState \<longrightarrow>
      stop s = s\<lparr>state := StoppedState, emitted := emitted s @ [stateChanged StoppedState],
                 isWaiting := False, events := events s @ [StoppedEvent]\<rparr>)
   \<and> (mediaStatus s \<noteq> LoadedMedia \<and> mediaStatus s \<noteq> EndOfMedia \<longrightarrow> stop s = s)
   \<and> runEvent StoppedEvent tick t =
       (True, t\<lparr>emitted := emitted t @ [stopped (position t)]
                    @ (if hasVideo t then [videoFrame EmptyVideoFrame] else []),
                isWaiting := True\<rparr>)"
  by (auto simp add: stop_def Let_def setState_def emit_def event_def wait_def hasVideo_def)

theorem stop_when_loaded_witness:
  "stop (QAVPlayerPrivate_init\<lparr>mediaStatus := LoadedMedia, state := PlayingState\<rparr>)
     = QAVPlayerPrivate_init\<lparr>mediaStatus := LoadedMedia, state := StoppedState,
         emitted := [stateChanged StoppedState], events := [StoppedEvent]\<rparr>
   \<and> stop (QAVPlayerPrivate_init\<lparr>mediaStatus := InvalidMedia, state := PlayingState\<rparr>)
     = QAVPlayerPrivate_init\<lparr>mediaStatus := InvalidMedia, state := PlayingState\<rparr>
   \<and> runEvent StoppedEvent True
       (QAVPlayerPrivate_init\<lparr>mediaStatus := EndOfMedia, duration := 10, demuxer := clip\<rparr>)
     = (True, QAVPlayerPrivate_init\<lparr>mediaStatus := EndOfMedia, duration := 10, demuxer := clip,
          emitted := [stopped 10000, videoFrame EmptyVideoFrame], isWaiting := True\<rparr>)"
proof -
  let ?l = "QAVPlayerPrivate_init\<lparr>mediaStatus := LoadedMedia, state := PlayingState\<rparr>"
  let ?i = "QAVPlayerPrivate_init\<lparr>mediaStatus := InvalidMedia, state := PlayingState\<rparr>"
  let ?t = "QAVPlayerPrivate_init\<lparr>mediaStatus := EndOfMedia, duration := 10, demuxer := clip\<rparr>"
  have p: "position ?t = 10000 \<and> hasVideo ?t"
    by code_simp
  have l: "(mediaStatus ?l = LoadedMedia \<or> mediaStatus ?l = EndOfMedia) \<and> state ?l \<noteq> StoppedState"
    and i: "mediaStatus ?i \<noteq> LoadedMedia \<and> mediaStatus ?i \<noteq> EndOfMedia"
    by (simp_all add: QAVPlayerPrivate_init_def)
  have A: "stop ?l = ?l\<lparr>state := StoppedState, emitted := emitted ?l @ [stateChanged StoppedState],
                 isWaiting := False, events := events ?l @ [StoppedEvent]\<rparr>"
    using stop_when_loaded [of ?l True ?t] l by blast
  have B: "stop ?i = ?i"
    using stop_when_loaded [of ?i True ?t] i by blast
  have C: "runEvent StoppedEvent True ?t =
       (True, ?t\<lparr>emitted := emitted ?t @ [stopped 10000] @ [videoFrame EmptyVideoFrame],
                isWaiting := True\<rparr>)"
    using stop_when_loaded [of ?l True ?t] p by simp
  show ?thesis
    unfolding A B C by (simp add: QAVPlayerPrivate_init_def)
qed

text \<open>
  C9 as stated fails. After the source was replaced before the first loader's closure
  ran, the player is Playing at InvalidMedia, and \<^verbatim>\<open>stop()\<close> there changes nothing: the
  state stays Playing.
\<close>

theorem stop_ignored_counterexample:
  "map_option state source_replaced = Some PlayingState
   \<and> map_option mediaStatus source_replaced = Some InvalidMedia
   \<and> map_option (state \<circ> stop) source_replaced = Some PlayingState
   \<and> map_option stop source_replaced = source_replaced"
  by code_simp

subsection \<open>The demuxer worker\<close>

text \<open>
  C2. When \<^verbatim>\<open>read()\<close> returns the null packet, the iteration ends at the timed wait,
  and exactly when the demuxer is at the end of the file, both queues are empty and
  neither is finished, it finishes the queue of each present stream and posts one closure
  to the client thread; otherwise it changes neither queue and posts nothing. The closure
  runs \<^verbatim>\<open>setMediaStatus(EndOfMedia)\<close>, then \<^verbatim>\<open>stop()\<close>: it leaves the media status
  EndOfMedia (with \<^verbatim>\<open>mediaStatusChanged\<close> unless it was so already) and the state
  Stopped; a player that was not Stopped gets \<^verbatim>\<open>stateChanged\<close>, the stopped event and a
  released gate, one that was Stopped gets its gate armed.
\<close>

theorem doDemux_end_of_media:
  "demuxer_read (demuxer s) = (None, dm) \<Longrightarrow>
   doDemux_read s =
     (WaitedNoPacket,
      if eof dm \<and> isEmpty (videoQueue s) \<and> isEmpty (audioQueue s)
         \<and> \<not> finished (videoQueue s) \<and> \<not> finished (audioQueue s)
      then s\<lparr>demuxer := dm,
             videoQueue := (if videoStream dm \<ge> 0 then finish (videoQueue s) else videoQueue s),
             audioQueue := (if audioStream dm \<ge> 0 then finish (audioQueue s) else audioQueue s),
             dispatched := dispatched s @ [EndOfMediaCapsule]\<rparr>
      else s\<lparr>demuxer := dm\<rparr>)
   \<and> (dispatched (snd (doDemux_read s)) \<noteq> dispatched s
        \<longleftrightarrow> eof dm \<and> isEmpty (videoQueue s) \<and> isEmpty (audioQueue s)
         \<and> \<not> finished (videoQueue s) \<and> \<not> finished (audioQueue s))
   \<and> runCapsule n EndOfMediaCapsule t = Some (stop (setMediaStatus EndOfMedia t))
   \<and> runCapsule n EndOfMediaCapsule t =
       Some (t\<lparr>mediaStatus := EndOfMedia, state := StoppedState,
               emitted := emitted t
                 @ (if mediaStatus t = EndOfMedia then [] else [mediaStatusChanged EndOfMedia])
                 @ (if state t = StoppedState then [] else [stateChanged StoppedState]),
               events := events t @ (if state t = StoppedState then [] else [StoppedEvent]),
               isWaiting := (state t = StoppedState)\<rparr>)"
  by (auto simp add: doDemux_read_def doDemux_noPacket_def hasVideo_def hasAudio_def
      dispatch_def Let_def stop_def setMediaStatus_def setState_def emit_def event_def wait_def)

theorem doDemux_end_of_media_witness:
  "demuxer_read (demuxer (QAVPlayerPrivate_init\<lparr>demuxer := clip\<lparr>eof := True\<rparr>\<rparr>))
     = (None, clip\<lparr>eof := True, reads := 1\<rparr>)
   \<and> doDemux_read (QAVPlayerPrivate_init\<lparr>demuxer := clip\<lparr>eof := True\<rparr>\<rparr>)
     = (WaitedNoPacket,
        QAVPlayerPrivate_init\<lparr>demuxer := clip\<lparr>eof := True, reads := 1\<rparr>,
          videoQueue := QAVPacketQueue_init\<lparr>finished := True\<rparr>,
          audioQueue := QAVPacketQueue_init\<lparr>finished := True\<rparr>,
          dispatched := [EndOfMediaCapsule]\<rparr>)
   \<and> demuxer_read (demuxer (QAVPlayerPrivate_init\<lparr>demuxer := clip\<rparr>))
     = (None, clip\<lparr>reads := 1\<rparr>)
   \<and> doDemux_read (QAVPlayerPrivate_init\<lparr>demuxer := clip\<rparr>)
     = (WaitedNoPacket, QAVPlayerPrivate_init\<lparr>demuxer := clip\<lparr>reads := 1\<rparr>\<rparr>)
   \<and> runCapsule 0 EndOfMediaCapsule
         (QAVPlayerPrivate_init\<lparr>mediaStatus := LoadedMedia, state := PlayingState\<rparr>)
     = Some (QAVPlayerPrivate_init\<lparr>mediaStatus := EndOfMedia, state := StoppedState,
         emitted := [mediaStatusChanged EndOfMedia, stateChanged StoppedState],
         events := [StoppedEvent]\<rparr>)"
proof -
  have r1: "demuxer_read (demuxer (QAVPlayerPrivate_init\<lparr>demuxer := clip\<lparr>eof := True\<rparr>\<rparr>))
     = (None, clip\<lparr>eof := True, reads := 1\<rparr>)"
    by (simp add: demuxer_read_def clip_def QAVDemuxer_init_def)
  have r2: "demuxer_read (demuxer (QAVPlayerPrivate_init\<lparr>demuxer := clip\<rparr>))
     = (None, clip\<lparr>reads := 1\<rparr>)"
    by (simp add: demuxer_read_def clip_def QAVDemuxer_init_def)
  note w1 = doDemux_end_of_media [OF r1, of 0
      "QAVPlayerPrivate_init\<lparr>mediaStatus := LoadedMedia, state := PlayingState\<rparr>"]
  note w2 = doDemux_end_of_media [OF r2, of 0 QAVPlayerPrivate_init]
  have A: "doDemux_read (QAVPlayerPrivate_init\<lparr>demuxer := clip\<lparr>eof := True\<rparr>\<rparr>)
     = (WaitedNoPacket,
        QAVPlayerPrivate_init\<lparr>demuxer := clip\<lparr>eof := True, reads := 1\<rparr>,
          videoQueue := QAVPacketQueue_init\<lparr>finished := True\<rparr>,
          audioQueue := QAVPacketQueue_init\<lparr>finished := True\<rparr>,
          dispatched := [EndOfMediaCapsule]\<rparr>)"
    unfolding w1 [THEN conjunct1]
    by (simp add: QAVPlayerPrivate_init_def QAVPacketQueue_init_def isEmpty_def finish_def
        clip_def QAVDemuxer_init_def)
  have B: "doDemux_read (QAVPlayerPrivate_init\<lparr>demuxer := clip\<rparr>)
     = (WaitedNoPacket, QAVPlayerPrivate_init\<lparr>demuxer := clip\<lparr>reads := 1\<rparr>\<rparr>)"
    unfolding w2 [THEN conjunct1]
    by (simp add: QAVPlayerPrivate_init_def QAVPacketQueue_init_def isEmpty_def finish_def
        clip_def QAVDemuxer_init_def)
  have C: "runCapsule 0 EndOfMediaCapsule
         (QAVPlayerPrivate_init\<lparr>mediaStatus := LoadedMedia, state := PlayingState\<rparr>)
     = Some (QAVPlayerPrivate_init\<lparr>mediaStatus := EndOfMedia, state := StoppedState,
         emitted := [mediaStatusChanged EndOfMedia, stateChanged StoppedState],
         events := [StoppedEvent]\<rparr>)"
    unfolding w1 [THEN conjunct2, THEN conjunct2, THEN conjunct2]
    by (simp add: QAVPlayerPrivate_init_def)
  show ?thesis
    using r1 r2 A B C by simp
qed

text \<open>
  C7, as amended. Past the gate, the iteration asks the two queue objects, whether or not
  their streams are present: do their bytes together exceed 15 * 1024 * 1024, or do both
  report \<^verbatim>\<open>enough()\<close>? When so, the iteration ends at the timed wait of line 316 with
  the record untouched, so \<^verbatim>\<open>read\<close> is not called, and as long as no other thread
  changes the record every later iteration does the same. When not, and so whenever the
  bytes are within the limit and one of the two queues does not report \<^verbatim>\<open>enough()\<close>,
  the iteration goes on to the seek handling and calls \<^verbatim>\<open>read\<close> once. A worker that has
  quit or waits at the armed gate reads nothing. This holds for every implementation of
  \<^verbatim>\<open>enough()\<close>.
\<close>

theorem doDemux_backpressure_blocks_read:
  "doDemux_backpressure enough s =
     (15 * 1024 * 1024 < bytes (videoQueue s) + bytes (audioQueue s)
      \<or> (enough (videoQueue s) \<and> enough (audioQueue s)))
   \<and> (doDemux_backpressure enough s \<longrightarrow>
        doDemux_iteration enough client s = (WaitedBackpressure, s)
        \<and> (\<forall>n. doDemux enough n s = s))
   \<and> (\<not> doDemux_backpressure enough s \<longrightarrow>
        doDemux_iteration enough client s = doDemux_read (doDemux_seek client s)
        \<and> fst (doDemux_iteration enough client s) \<noteq> WaitedBackpressure
        \<and> reads (demuxer (snd (doDemux_iteration enough id s))) = Suc (reads (demuxer s)))
   \<and> (bytes (videoQueue s) + bytes (audioQueue s) \<le> 15 * 1024 * 1024
        \<and> (\<not> enough (videoQueue s) \<or> \<not> enough (audioQueue s)) \<longrightarrow>
        reads (demuxer (snd (doDemux_iteration enough id s))) = Suc (reads (demuxer s)))
   \<and> (\<not> quit s \<and> \<not> doWait_blocks s \<and> \<not> doDemux_backpressure enough s \<longrightarrow>
        reads (demuxer (doDemux enough (Suc 0) s)) = Suc (reads (demuxer s)))
   \<and> (quit s \<or> doWait_blocks s \<longrightarrow> (\<forall>n. doDemux enough n s = s))"
proof -
  have bp: "doDemux_backpressure enough s =
     (15 * 1024 * 1024 < bytes (videoQueue s) + bytes (audioQueue s)
      \<or> (enough (videoQueue s) \<and> enough (audioQueue s)))"
    by (simp add: doDemux_backpressure_def maxQueueBytes_def)
  have rd: "reads (demuxer (snd (doDemux_iteration enough id s))) = Suc (reads (demuxer s))"
    if "\<not> doDemux_backpressure enough s"
    using that
    by (simp add: doDemux_iteration_def doDemux_read_def demuxer_read_def doDemux_seek_def
        doDemux_seek_relock_def doDemux_seek_unlocked_def demuxer_seek_def doDemux_noPacket_def
        doDemux_route_def dispatch_def hasVideo_def hasAudio_def Let_def
        split: list.splits option.splits)
  have hold: "doDemux_iteration enough client s = (WaitedBackpressure, s)
        \<and> (\<forall>n. doDemux enough n s = s)" if b: "doDemux_backpressure enough s"
  proof
    show "doDemux_iteration enough client s = (WaitedBackpressure, s)"
      using b by (simp add: doDemux_iteration_def)
    have it: "doDemux_iteration enough id s = (WaitedBackpressure, s)"
      using b by (simp add: doDemux_iteration_def)
    show "\<forall>n. doDemux enough n s = s"
    proof
      fix n show "doDemux enough n s = s"
        by (induction n) (simp_all add: it)
    qed
  qed
  have go: "doDemux_iteration enough client s = doDemux_read (doDemux_seek client s)
        \<and> fst (doDemux_iteration enough client s) \<noteq> WaitedBackpressure
        \<and> reads (demuxer (snd (doDemux_iteration enough id s))) = Suc (reads (demuxer s))"
    if nb: "\<not> doDemux_backpressure enough s"
  proof (intro conjI)
    show "doDemux_iteration enough client s = doDemux_read (doDemux_seek client s)"
      using nb by (simp add: doDemux_iteration_def)
    show "fst (doDemux_iteration enough client s) \<noteq> WaitedBackpressure"
      using nb by (simp add: doDemux_iteration_def doDemux_read_def demuxer_read_def Let_def
          split: list.splits option.splits)
    show "reads (demuxer (snd (doDemux_iteration enough id s))) = Suc (reads (demuxer s))"
      using nb by (rule rd)
  qed
  have one: "reads (demuxer (snd (doDemux_iteration enough id s))) = Suc (reads (demuxer s))"
    if "bytes (videoQueue s) + bytes (audioQueue s) \<le> 15 * 1024 * 1024
        \<and> (\<not> enough (videoQueue s) \<or> \<not> enough (audioQueue s))"
    using that by (intro rd) (auto simp add: bp)
  have loop: "reads (demuxer (doDemux enough (Suc 0) s)) = Suc (reads (demuxer s))"
    if "\<not> quit s \<and> \<not> doWait_blocks s \<and> \<not> doDemux_backpressure enough s"
    using that rd by simp
  have blocked: "\<forall>n. doDemux enough n s = s" if q: "quit s \<or> doWait_blocks s"
  proof
    fix n show "doDemux enough n s = s"
      using q by (cases n) auto
  qed
  show ?thesis
    using bp hold go one loop blocked by blast
qed

text \<open>
  A video queue holding one packet of 16 MiB holds the worker back; the fresh player
  does not, and its worker reads once; with the gate armed the worker reads nothing.
\<close>

theorem doDemux_backpressure_blocks_read_witness:
  "doDemux_backpressure (enough_packets 16)
     (QAVPlayerPrivate_init\<lparr>videoQueue :=
        QAVPacketQueue_init\<lparr>packets := [\<lparr>streamIndex = 0, size_bytes = 16777216\<rparr>]\<rparr>\<rparr>)
   \<and> doDemux_iteration (enough_packets 16) id
       (QAVPlayerPrivate_init\<lparr>videoQueue :=
          QAVPacketQueue_init\<lparr>packets := [\<lparr>streamIndex = 0, size_bytes = 16777216\<rparr>]\<rparr>\<rparr>)
     = (WaitedBackpressure,
        QAVPlayerPrivate_init\<lparr>videoQueue :=
          QAVPacketQueue_init\<lparr>packets := [\<lparr>streamIndex = 0, size_bytes = 16777216\<rparr>]\<rparr>\<rparr>)
   \<and> doDemux (enough_packets 16) 3
       (QAVPlayerPrivate_init\<lparr>videoQueue :=
          QAVPacketQueue_init\<lparr>packets := [\<lparr>streamIndex = 0, size_bytes = 16777216\<rparr>]\<rparr>\<rparr>)
     = QAVPlayerPrivate_init\<lparr>videoQueue :=
          QAVPacketQueue_init\<lparr>packets := [\<lparr>streamIndex = 0, size_bytes = 16777216\<rparr>]\<rparr>\<rparr>
   \<and> \<not> doDemux_backpressure (enough_packets 16) QAVPlayerPrivate_init
   \<and> reads (demuxer (snd (doDemux_iteration (enough_packets 16) id QAVPlayerPrivate_init))) = 1
   \<and> reads (demuxer (doDemux (enough_packets 16) (Suc 0) QAVPlayerPrivate_init)) = 1
   \<and> doDemux (enough_packets 16) 3 (QAVPlayerPrivate_init\<lparr>isWaiting := True\<rparr>)
     = QAVPlayerPrivate_init\<lparr>isWaiting := True\<rparr>"
proof -
  let ?full = "QAVPlayerPrivate_init\<lparr>videoQueue :=
        QAVPacketQueue_init\<lparr>packets := [\<lparr>streamIndex = 0, size_bytes = 16777216\<rparr>]\<rparr>\<rparr>"
  let ?gate = "QAVPlayerPrivate_init\<lparr>isWaiting := True\<rparr>"
  have b: "doDemux_backpressure (enough_packets 16) ?full"
    by (simp add: doDemux_backpressure_def maxQueueBytes_def bytes_def QAVPlayerPrivate_init_def
        QAVPacketQueue_init_def)
  have nb: "\<not> doDemux_backpressure (enough_packets 16) QAVPlayerPrivate_init"
    by (simp add: doDemux_backpressure_def maxQueueBytes_def bytes_def QAVPlayerPrivate_init_def
        QAVPacketQueue_init_def enough_packets_def)
  have r: "reads (demuxer QAVPlayerPrivate_init) = 0 \<and> \<not> quit QAVPlayerPrivate_init
           \<and> \<not> doWait_blocks QAVPlayerPrivate_init"
    by (simp add: QAVPlayerPrivate_init_def QAVDemuxer_init_def doWait_blocks_def)
  have g: "doWait_blocks ?gate"
    by (simp add: doWait_blocks_def)
  have A: "doDemux_iteration (enough_packets 16) id ?full = (WaitedBackpressure, ?full)
           \<and> (\<forall>n. doDemux (enough_packets 16) n ?full = ?full)"
    using doDemux_backpressure_blocks_read [of "enough_packets 16" ?full id] b by blast
  have B: "reads (demuxer (snd (doDemux_iteration (enough_packets 16) id QAVPlayerPrivate_init)))
           = Suc (reads (demuxer QAVPlayerPrivate_init))
         \<and> reads (demuxer (doDemux (enough_packets 16) (Suc 0) QAVPlayerPrivate_init))
           = Suc (reads (demuxer QAVPlayerPrivate_init))"
    using doDemux_backpressure_blocks_read [of "enough_packets 16" QAVPlayerPrivate_init id] nb r
    by blast
  have C: "\<forall>n. doDemux (enough_packets 16) n ?gate = ?gate"
    using doDemux_backpressure_blocks_read [of "enough_packets 16" ?gate id] g by blast
  show ?thesis
    using A B C b nb r by simp
qed

text \<open>
  C7 as stated fails. The clip has a video stream only, and the spec's \<^verbatim>\<open>enough()\<close> asks
  for 16 packets. With nothing taken from the video queue the worker reads all 17 packets
  of the clip and queues them: it read the last one while the one present queue, holding
  16 packets, reported \<^verbatim>\<open>enough()\<close>, because the empty queue of the absent audio stream
  does not.
\<close>

theorem single_stream_counterexample:
  "map_option hasVideo video_only_run = Some True
   \<and> map_option hasAudio video_only_run = Some False
   \<and> map_option (reads \<circ> demuxer) video_only_run = Some 17
   \<and> map_option (length \<circ> packets \<circ> videoQueue) video_only_run = Some 17
   \<and> map_option (enough_packets 16 \<circ> videoQueue) video_only_run = Some True
   \<and> map_option (doDemux_backpressure (enough_packets 16)) video_only_run = Some False"
  by code_simp

text \<open>
  C10. A packet whose stream index is neither the video nor the audio stream of the
  demuxer is dropped: routing leaves the whole record as it is, and the iteration that
  read it changes only the demuxer, by that read.
\<close>

theorem doDemux_unmatched_packet_dropped:
  "streamIndex p \<noteq> videoStream (demuxer s) \<Longrightarrow> streamIndex p \<noteq> audioStream (demuxer s) \<Longrightarrow>
   doDemux_route p s = s
   \<and> (incoming (demuxer s) = Some p # rest \<longrightarrow>
        doDemux_read s =
          (Routed, s\<lparr>demuxer := (demuxer s)\<lparr>incoming := rest,
                                             reads := Suc (reads (demuxer s))\<rparr>\<rparr>))"
  by (simp add: doDemux_route_def doDemux_read_def demuxer_read_def)

theorem doDemux_unmatched_packet_dropped_witness:
  "streamIndex \<lparr>streamIndex = 2, size_bytes = 100\<rparr>
     \<noteq> videoStream (demuxer (QAVPlayerPrivate_init\<lparr>demuxer :=
          clip\<lparr>incoming := [Some \<lparr>streamIndex = 2, size_bytes = 100\<rparr>]\<rparr>\<rparr>))
   \<and> streamIndex \<lparr>streamIndex = 2, size_bytes = 100\<rparr>
     \<noteq> audioStream (demuxer (QAVPlayerPrivate_init\<lparr>demuxer :=
          clip\<lparr>incoming := [Some \<lparr>streamIndex = 2, size_bytes = 100\<rparr>]\<rparr>\<rparr>))
   \<and> doDemux_read (QAVPlayerPrivate_init\<lparr>demuxer :=
          clip\<lparr>incoming := [Some \<lparr>streamIndex = 2, size_bytes = 100\<rparr>]\<rparr>\<rparr>)
     = (Routed, QAVPlayerPrivate_init\<lparr>demuxer := clip\<lparr>incoming := [], reads := 1\<rparr>\<rparr>)"
proof -
  let ?p = "\<lparr>streamIndex = 2, size_bytes = 100\<rparr>"
  let ?s = "QAVPlayerPrivate_init\<lparr>demuxer := clip\<lparr>incoming := [Some ?p]\<rparr>\<rparr>"
  have v: "streamIndex ?p \<noteq> videoStream (demuxer ?s)"
    by (simp add: clip_def QAVDemuxer_init_def)
  have a: "streamIndex ?p \<noteq> audioStream (demuxer ?s)"
    by (simp add: clip_def QAVDemuxer_init_def)
  show ?thesis
    using doDemux_unmatched_packet_dropped [OF v a, of "[]"] v a
    by (simp add: clip_def QAVDemuxer_init_def)
qed

subsection \<open>Seek handling in the demuxer worker\<close>











end
